theory Spec2Isabelle
  imports Main
begin

section \<open>Relay and pairing engine: persistent relay and persistent host client\<close>

text \<open>
  The development embeds two source files:
  \<^item> \<^verbatim>\<open>persistent_cloud_relay.py\<close>: the three module-level stores \<^verbatim>\<open>devices\<close>,
    \<^verbatim>\<open>device_info\<close>, \<^verbatim>\<open>paired_devices\<close>, the function \<^verbatim>\<open>save_persistent_data\<close>,
    \<^verbatim>\<open>load_persistent_data\<close> and the message loop \<^verbatim>\<open>handle_client\<close>;
  \<^item> \<^verbatim>\<open>persistent_laptop_client.py\<close>: the class \<^verbatim>\<open>PersistentLaptopClient\<close> with
    \<^verbatim>\<open>handle_message\<close>, \<^verbatim>\<open>handle_pair_request\<close> and \<^verbatim>\<open>generate_pairing_code\<close>.

  Conventions of the embedding.
  \<^item> A field read with \<^verbatim>\<open>data.get(...)\<close> is a string or Python's \<^verbatim>\<open>None\<close>: the type
    \<open>string option\<close>, with \<open>None\<close> for \<^verbatim>\<open>None\<close>. A device id is such a value, because
    the handler's local \<^verbatim>\<open>device_id\<close> starts as \<^verbatim>\<open>None\<close> and stays so until a
    \<^verbatim>\<open>register\<close> message arrives.
  \<^item> A Python \<^verbatim>\<open>dict\<close> keeps insertion order and has one entry per key: it is an
    association list, written with \<open>dict_set\<close> and \<open>dict_del\<close> below and read with
    \<open>map_of\<close>. The set \<^verbatim>\<open>paired_devices\<close> is a duplicate-free list of ordered tuples;
    its iteration order (which Python leaves to the hash values) is the list order.
  \<^item> A websocket is identified by a number. Whether a write to it succeeds is given by
    the environment (\<open>send_ok\<close>); a write that fails raises, as \<^verbatim>\<open>websocket.send\<close> does.
  \<^item> Every call of \<^verbatim>\<open>websocket.send\<close> and of \<^verbatim>\<open>save_persistent_data\<close> is recorded, in
    order, in the list of effects a handler returns.
\<close>

subsection \<open>Python dictionaries\<close>

fun dict_set :: "'k \<Rightarrow> 'v \<Rightarrow> ('k \<times> 'v) list \<Rightarrow> ('k \<times> 'v) list" where
  "dict_set k v [] = [(k, v)]"
| "dict_set k v ((k', v') # rest) =
     (if k' = k then (k, v) # rest else (k', v') # dict_set k v rest)"

definition dict_del :: "'k \<Rightarrow> ('k \<times> 'v) list \<Rightarrow> ('k \<times> 'v) list" where
  "dict_del k d = filter (\<lambda>p. fst p \<noteq> k) d"

definition dict_has :: "('k \<times> 'v) list \<Rightarrow> 'k \<Rightarrow> bool" where
  "dict_has d k = (map_of d k \<noteq> None)"

subsection \<open>Decimal strings\<close>

text \<open>Python's \<^verbatim>\<open>f"{n}"\<close> for an integer \<open>n\<close>: the decimal digits, with a minus sign
  when \<open>n\<close> is negative.\<close>

definition digit_char :: "nat \<Rightarrow> char" where
  "digit_char d =
     (if d = 0 then CHR ''0'' else if d = 1 then CHR ''1'' else if d = 2 then CHR ''2''
      else if d = 3 then CHR ''3'' else if d = 4 then CHR ''4'' else if d = 5 then CHR ''5''
      else if d = 6 then CHR ''6'' else if d = 7 then CHR ''7'' else if d = 8 then CHR ''8''
      else CHR ''9'')"

fun str_nat :: "nat \<Rightarrow> string" where
  "str_nat n = (if n < 10 then [digit_char n] else str_nat (n div 10) @ [digit_char (n mod 10)])"

declare str_nat.simps [simp del]

definition str_int :: "int \<Rightarrow> string" where
  "str_int i = (if i < 0 then CHR ''-'' # str_nat (nat (- i)) else str_nat (nat i))"

definition is_digit :: "char \<Rightarrow> bool" where
  "is_digit c = (c \<in> set ''0123456789'')"

subsection \<open>Messages\<close>

type_synonym dev_id = "string option"
type_synonym conn = nat
type_synonym timestamp = nat

text \<open>A message a device sends to the relay, with the fields as the handler reads them
  (after \<^verbatim>\<open>data.get\<close> has applied its default). A message of any other type
  (\<^verbatim>\<open>ping\<close> included) matches no branch of the relay's \<^verbatim>\<open>if\<close>/\<^verbatim>\<open>elif\<close> chain.\<close>

datatype request =
  Register dev_id "string option" "string option"
    \<comment> \<open>\<^verbatim>\<open>device_id\<close>, \<^verbatim>\<open>device_type\<close>, \<^verbatim>\<open>device_name\<close>\<close>
| Pair_request "string option" "string option"
    \<comment> \<open>\<^verbatim>\<open>pairing_code\<close>, \<^verbatim>\<open>device_name\<close>\<close>
| Pair_response dev_id bool string
    \<comment> \<open>\<^verbatim>\<open>target_device_id\<close>, \<^verbatim>\<open>accepted\<close>, \<^verbatim>\<open>message\<close>\<close>
| Unpair_device dev_id
    \<comment> \<open>\<^verbatim>\<open>target_device_id\<close>\<close>
| Relay_message dev_id string string
    \<comment> \<open>\<^verbatim>\<open>target_device_id\<close>, \<^verbatim>\<open>message_type\<close>, \<^verbatim>\<open>payload\<close>\<close>
| Other_request

text \<open>An entry of the \<^verbatim>\<open>existing_pairings\<close> list: peer id, peer name, peer type.\<close>

type_synonym pairing_entry = "dev_id \<times> string option \<times> string option"

text \<open>A message the relay sends to a device.\<close>

datatype reply =
  Registered dev_id bool
    \<comment> \<open>\<^verbatim>\<open>device_id\<close>, \<^verbatim>\<open>is_known_device\<close>\<close>
| Existing_pairings "pairing_entry list"
| Fwd_pair_request dev_id "string option" "string option"
    \<comment> \<open>\<^verbatim>\<open>from_device_id\<close>, \<^verbatim>\<open>pairing_code\<close>, \<^verbatim>\<open>device_name\<close>\<close>
| Pairing_failed string
| Paired dev_id "string option" string
    \<comment> \<open>\<^verbatim>\<open>peer_device_id\<close>, \<^verbatim>\<open>peer_device_name\<close>, \<^verbatim>\<open>message\<close>\<close>
| Unpaired dev_id
| Relayed dev_id string string
    \<comment> \<open>\<^verbatim>\<open>from_device_id\<close>, \<^verbatim>\<open>message_type\<close>, \<^verbatim>\<open>payload\<close>\<close>
| Relay_failed string

subsection \<open>The host client (\<^verbatim>\<open>PersistentLaptopClient\<close>)\<close>

record client =
  self_device_id :: string
  self_device_name :: string
  self_paired_devices :: "pairing_entry list"
  pairing_code :: "string option"

text \<open>\<^verbatim>\<open>generate_pairing_code\<close>: \<^verbatim>\<open>self.pairing_code = f"{random.randint(100000, 999999)}"\<close>.
  \<^verbatim>\<open>random.randint\<close> belongs to Python's standard library, so it is a parameter: the
  method calls it with the bounds 100000 and 999999 and formats what it returns.\<close>

definition generate_pairing_code :: "(int \<Rightarrow> int \<Rightarrow> int) \<Rightarrow> client \<Rightarrow> string \<times> client" where
  "generate_pairing_code randint c =
     (let code = str_int (randint 100000 999999)
      in (code, c\<lparr>pairing_code := Some code\<rparr>))"

text \<open>\<^verbatim>\<open>handle_pair_request\<close>: the test \<^verbatim>\<open>self.pairing_code and pairing_code ==
  self.pairing_code\<close> is false for \<^verbatim>\<open>None\<close> and for the empty string. The method
  assigns no attribute of \<^verbatim>\<open>self\<close>; it returns the client it was given and the
  \<^verbatim>\<open>pair_response\<close> it sends.\<close>

definition code_matches :: "client \<Rightarrow> string option \<Rightarrow> bool" where
  "code_matches c offered =
     (case pairing_code c of
        None \<Rightarrow> False
      | Some own \<Rightarrow> own \<noteq> [] \<and> offered = Some own)"

definition handle_pair_request ::
  "client \<Rightarrow> string option \<Rightarrow> dev_id \<Rightarrow> string option \<Rightarrow> client \<times> request" where
  "handle_pair_request c offered mobile_device_id device_name =
     (if code_matches c offered
      then (c, Pair_response mobile_device_id True
                 (''Paired with '' @ self_device_name c @ '' (persistent)''))
      else (c, Pair_response mobile_device_id False ''Invalid pairing code''))"

text \<open>\<^verbatim>\<open>handle_message\<close> of the client, for the message types that touch its state.
  The result is the new client and the messages it sends to the relay.\<close>

definition client_handle_message :: "client \<Rightarrow> reply \<Rightarrow> client \<times> request list" where
  "client_handle_message c data =
     (case data of
        Existing_pairings ps \<Rightarrow> (c\<lparr>self_paired_devices := ps\<rparr>, [])
      | Fwd_pair_request from_id code name \<Rightarrow>
          (let (c', resp) = handle_pair_request c code from_id name in (c', [resp]))
      | Paired peer_id peer_name msg \<Rightarrow>
          (if list_ex (\<lambda>p. fst p = peer_id) (self_paired_devices c) then (c, [])
           else (c\<lparr>self_paired_devices :=
                     self_paired_devices c @ [(peer_id, peer_name, Some ''mobile'')]\<rparr>, []))
      | Unpaired target_id \<Rightarrow>
          (c\<lparr>self_paired_devices := filter (\<lambda>p. fst p \<noteq> target_id) (self_paired_devices c)\<rparr>, [])
      | _ \<Rightarrow> (c, []))"

subsection \<open>The relay's stores (\<^verbatim>\<open>persistent_cloud_relay.py\<close>)\<close>

record dev_info =
  device_type :: "string option"
  device_name :: "string option"
  fingerprint :: string
  first_seen :: timestamp
  last_seen :: timestamp

text \<open>The module-level state: \<^verbatim>\<open>devices\<close> (the connection registry),
  \<^verbatim>\<open>device_info\<close> (the device directory) and \<^verbatim>\<open>paired_devices\<close> (the pairing
  store).\<close>

record relay_state =
  devices :: "(dev_id \<times> conn) list"
  device_info :: "(dev_id \<times> dev_info) list"
  paired_devices :: "(dev_id \<times> dev_id) list"

text \<open>What a handler does to the outside: a call of \<^verbatim>\<open>save_persistent_data\<close>, with the
  directory and the pairing set it serialises, or a call of \<^verbatim>\<open>send\<close> on a websocket.
  \<open>Send\<close> records the call; the write reaches the peer when \<open>send_ok\<close> holds for the
  websocket and raises otherwise.\<close>

datatype effect =
  Save "(dev_id \<times> dev_info) list" "(dev_id \<times> dev_id) list"
| Send conn reply

text \<open>What the handler reads from outside while it handles one message: whether a write
  to a websocket succeeds, the value of the \<open>k\<close>-th call of \<^verbatim>\<open>datetime.now()\<close>, and
  the library function \<^verbatim>\<open>hashlib.sha256(...).hexdigest()\<close>.\<close>

record env =
  send_ok :: "conn \<Rightarrow> bool"
  now :: "nat \<Rightarrow> timestamp"
  sha256_hex :: "string \<Rightarrow> string"

definition py_str :: "string option \<Rightarrow> string" where
  "py_str v = (case v of None \<Rightarrow> ''None'' | Some x \<Rightarrow> x)"

definition generate_device_fingerprint ::
  "(string \<Rightarrow> string) \<Rightarrow> dev_id \<Rightarrow> string option \<Rightarrow> string" where
  "generate_device_fingerprint h device_id name =
     take 16 (h (py_str device_id @ '':'' @ py_str name))"

fun dict_modify :: "'k \<Rightarrow> ('v \<Rightarrow> 'v) \<Rightarrow> ('k \<times> 'v) list \<Rightarrow> ('k \<times> 'v) list" where
  "dict_modify k f [] = []"
| "dict_modify k f ((k', v) # rest) =
     (if k' = k then (k', f v) # rest else (k', v) # dict_modify k f rest)"

definition in_pair :: "dev_id \<Rightarrow> dev_id \<times> dev_id \<Rightarrow> bool" where
  "in_pair x pair = (x = fst pair \<or> x = snd pair)"

subsection \<open>The \<^verbatim>\<open>register\<close> branch\<close>

text \<open>The loop that collects \<^verbatim>\<open>my_pairings\<close>.\<close>

fun my_pairings :: "dev_id \<Rightarrow> (dev_id \<times> dev_info) list \<Rightarrow> (dev_id \<times> dev_id) list
    \<Rightarrow> pairing_entry list" where
  "my_pairings device_id info [] = []"
| "my_pairings device_id info (pair # rest) =
     (if in_pair device_id pair then
        (let peer_id = (if fst pair = device_id then snd pair else fst pair) in
         case map_of info peer_id of
           None \<Rightarrow> my_pairings device_id info rest
         | Some i \<Rightarrow> (peer_id, device_name i, device_type i) # my_pairings device_id info rest)
      else my_pairings device_id info rest)"

text \<open>After the directory is saved, \<^verbatim>\<open>logger.info\<close> formats \<^verbatim>\<open>device_id[:8]\<close>, which
  raises \<^verbatim>\<open>TypeError\<close> when the id is \<^verbatim>\<open>None\<close>: the branch then ends before it sends
  anything. A failed write of \<^verbatim>\<open>registered\<close> ends it too.\<close>

definition relay_register ::
  "env \<Rightarrow> conn \<Rightarrow> dev_id \<Rightarrow> string option \<Rightarrow> string option \<Rightarrow> relay_state
    \<Rightarrow> relay_state \<times> effect list" where
  "relay_register e websocket device_id dtype dname s =
     (let s1 = s\<lparr>devices := dict_set device_id websocket (devices s)\<rparr>;
          fp = generate_device_fingerprint (sha256_hex e) device_id dname;
          is_known = dict_has (device_info s1) device_id;
          s2 = (if \<not> is_known
                then s1\<lparr>device_info := dict_set device_id
                        \<lparr>device_type = dtype, device_name = dname, fingerprint = fp,
                         first_seen = now e 0, last_seen = now e 1\<rparr> (device_info s1)\<rparr>
                else s1\<lparr>device_info := dict_modify device_id
                        (\<lambda>i. i\<lparr>last_seen := now e 0\<rparr>) (device_info s1)\<rparr>);
          saved = Save (device_info s2) (paired_devices s2);
          registered = Send websocket (Registered device_id is_known)
      in if device_id = None then (s2, [saved])
         else if \<not> send_ok e websocket then (s2, [saved, registered])
         else (let ps = my_pairings device_id (device_info s2) (paired_devices s2) in
               if ps \<noteq> [] then (s2, [saved, registered, Send websocket (Existing_pairings ps)])
               else (s2, [saved, registered])))"

subsection \<open>The \<^verbatim>\<open>pair_request\<close> branch\<close>

definition is_laptop :: "(dev_id \<times> dev_info) list \<Rightarrow> dev_id \<Rightarrow> bool" where
  "is_laptop info laptop_id =
     (case map_of info laptop_id of None \<Rightarrow> False | Some i \<Rightarrow> device_type i = Some ''laptop'')"

text \<open>The loop over \<^verbatim>\<open>devices.items()\<close>: it writes the offer to each laptop in turn
  and stops at the first write that succeeds (\<^verbatim>\<open>break\<close>); a write that raises is
  passed over (\<^verbatim>\<open>except: pass\<close>). The result is the writes it made and
  \<^verbatim>\<open>laptop_found\<close>.\<close>

fun forward_to_laptop :: "env \<Rightarrow> (dev_id \<times> dev_info) list \<Rightarrow> reply \<Rightarrow> (dev_id \<times> conn) list
    \<Rightarrow> effect list \<times> bool" where
  "forward_to_laptop e info offer [] = ([], False)"
| "forward_to_laptop e info offer ((laptop_id, laptop_ws) # rest) =
     (if is_laptop info laptop_id then
        (if send_ok e laptop_ws then ([Send laptop_ws offer], True)
         else (let (es, found) = forward_to_laptop e info offer rest
               in (Send laptop_ws offer # es, found)))
      else forward_to_laptop e info offer rest)"

definition relay_pair_request ::
  "env \<Rightarrow> conn \<Rightarrow> dev_id \<Rightarrow> string option \<Rightarrow> string option \<Rightarrow> relay_state
    \<Rightarrow> relay_state \<times> effect list" where
  "relay_pair_request e websocket device_id code name s =
     (let (es, laptop_found) =
            forward_to_laptop e (device_info s) (Fwd_pair_request device_id code name) (devices s)
      in if \<not> laptop_found
         then (s, es @ [Send websocket (Pairing_failed ''No laptops available'')])
         else (s, es))"

subsection \<open>The \<^verbatim>\<open>pair_response\<close> branch\<close>

text \<open>\<^verbatim>\<open>device_info[target_id]\<close> and \<^verbatim>\<open>device_info[device_id]\<close> raise \<^verbatim>\<open>KeyError\<close>
  for an id that is not in the directory; the exception is caught by the handler of the
  message loop, after the pairing has been added and saved.\<close>

definition relay_pair_response ::
  "env \<Rightarrow> conn \<Rightarrow> dev_id \<Rightarrow> dev_id \<Rightarrow> bool \<Rightarrow> string \<Rightarrow> relay_state
    \<Rightarrow> relay_state \<times> effect list" where
  "relay_pair_response e websocket device_id target_id accepted message s =
     (case map_of (devices s) target_id of
        None \<Rightarrow> (s, [])
      | Some target_ws \<Rightarrow>
          if accepted then
            (let s' = s\<lparr>paired_devices := List.insert (device_id, target_id) (paired_devices s)\<rparr>;
                 saved = Save (device_info s') (paired_devices s')
             in case map_of (device_info s') target_id of
                  None \<Rightarrow> (s', [saved])
                | Some ti \<Rightarrow>
                    (let to_host = Send websocket (Paired target_id (device_name ti) message) in
                     if \<not> send_ok e websocket then (s', [saved, to_host])
                     else case map_of (device_info s') device_id of
                            None \<Rightarrow> (s', [saved, to_host])
                          | Some di \<Rightarrow>
                              (s', [saved, to_host,
                                    Send target_ws (Paired device_id (device_name di)
                                      ''Successfully paired with laptop (persistent)'')])))
          else (s, [Send target_ws (Pairing_failed message)]))"

subsection \<open>The \<^verbatim>\<open>unpair_device\<close> branch\<close>

definition relay_unpair_device ::
  "env \<Rightarrow> conn \<Rightarrow> dev_id \<Rightarrow> dev_id \<Rightarrow> relay_state \<Rightarrow> relay_state \<times> effect list" where
  "relay_unpair_device e websocket device_id target_id s =
     (let s' = s\<lparr>paired_devices :=
                   filter (\<lambda>pair. \<not> (in_pair device_id pair \<and> in_pair target_id pair))
                     (paired_devices s)\<rparr>;
          saved = Save (device_info s') (paired_devices s');
          ack = Send websocket (Unpaired target_id)
      in if \<not> send_ok e websocket then (s', [saved, ack])
         else case map_of (devices s') target_id of
                None \<Rightarrow> (s', [saved, ack])
              | Some target_ws \<Rightarrow> (s', [saved, ack, Send target_ws (Unpaired device_id)]))"

subsection \<open>The \<^verbatim>\<open>relay_message\<close> branch\<close>

text \<open>The test \<^verbatim>\<open>pair1 in paired_devices or pair2 in paired_devices\<close>.\<close>

definition is_paired :: "relay_state \<Rightarrow> dev_id \<Rightarrow> dev_id \<Rightarrow> bool" where
  "is_paired s a b = ((a, b) \<in> set (paired_devices s) \<or> (b, a) \<in> set (paired_devices s))"

text \<open>The write to the target sits in \<^verbatim>\<open>try: ... except: pass\<close>: whether it succeeds or
  raises, the branch ends there.\<close>

definition relay_relay_message ::
  "env \<Rightarrow> conn \<Rightarrow> dev_id \<Rightarrow> dev_id \<Rightarrow> string \<Rightarrow> string \<Rightarrow> relay_state
    \<Rightarrow> relay_state \<times> effect list" where
  "relay_relay_message e websocket device_id target_id message_type payload s =
     (if is_paired s device_id target_id then
        (case map_of (devices s) target_id of
           Some target_ws \<Rightarrow> (s, [Send target_ws (Relayed device_id message_type payload)])
         | None \<Rightarrow> (s, [Send websocket (Relay_failed ''Target device is offline'')]))
      else (s, [Send websocket (Relay_failed ''Devices are not paired'')]))"

subsection \<open>The message loop and its cleanup\<close>

text \<open>One turn of the loop of \<^verbatim>\<open>handle_client\<close> on the connection \<open>websocket\<close>, whose
  local variable \<^verbatim>\<open>device_id\<close> has the value given. The result is the new value of
  the local variable, the new stores and the effects.\<close>

definition handle_client_message ::
  "env \<Rightarrow> conn \<Rightarrow> dev_id \<Rightarrow> request \<Rightarrow> relay_state \<Rightarrow> dev_id \<times> relay_state \<times> effect list" where
  "handle_client_message e websocket device_id data s =
     (case data of
        Register new_id dtype dname \<Rightarrow>
          (let (s', es) = relay_register e websocket new_id dtype dname s in (new_id, s', es))
      | Pair_request code name \<Rightarrow>
          (let (s', es) = relay_pair_request e websocket device_id code name s
           in (device_id, s', es))
      | Pair_response target_id accepted message \<Rightarrow>
          (let (s', es) = relay_pair_response e websocket device_id target_id accepted message s
           in (device_id, s', es))
      | Unpair_device target_id \<Rightarrow>
          (let (s', es) = relay_unpair_device e websocket device_id target_id s
           in (device_id, s', es))
      | Relay_message target_id message_type payload \<Rightarrow>
          (let (s', es) = relay_relay_message e websocket device_id target_id message_type payload s
           in (device_id, s', es))
      | Other_request \<Rightarrow> (device_id, s, []))"

text \<open>The \<^verbatim>\<open>finally\<close> block. \<^verbatim>\<open>if device_id\<close> is false for \<^verbatim>\<open>None\<close> and for the
  empty string.\<close>

definition handle_client_cleanup :: "env \<Rightarrow> dev_id \<Rightarrow> relay_state \<Rightarrow> relay_state \<times> effect list" where
  "handle_client_cleanup e device_id s =
     (if device_id \<noteq> None \<and> device_id \<noteq> Some [] \<and> dict_has (devices s) device_id then
        (let s1 = s\<lparr>devices := dict_del device_id (devices s)\<rparr> in
         if dict_has (device_info s1) device_id then
           (let s2 = s1\<lparr>device_info := dict_modify device_id
                          (\<lambda>i. i\<lparr>last_seen := now e 0\<rparr>) (device_info s1)\<rparr>
            in (s2, [Save (device_info s2) (paired_devices s2)]))
         else (s1, []))
      else (s, []))"

subsection \<open>Several connections\<close>

text \<open>The relay serves each connection with its own run of \<^verbatim>\<open>handle_client\<close>; the runs
  share the stores and each has its own \<^verbatim>\<open>device_id\<close>. An event is a message arriving
  on a connection or a connection closing (which runs the \<^verbatim>\<open>finally\<close> block).\<close>

datatype event = Message conn request | Disconnect conn

definition local_id :: "(conn \<times> dev_id) list \<Rightarrow> conn \<Rightarrow> dev_id" where
  "local_id locals c = (case map_of locals c of None \<Rightarrow> None | Some d \<Rightarrow> d)"

definition initial_state :: relay_state where
  "initial_state = \<lparr>devices = [], device_info = [], paired_devices = []\<rparr>"

text \<open>The environment of the \<open>n\<close>-th event: the clock has moved on by two readings
  per event (no branch reads it more than twice).\<close>

definition env_at :: "env \<Rightarrow> nat \<Rightarrow> env" where
  "env_at e n = e\<lparr>now := (\<lambda>k. now e (2 * n + k))\<rparr>"

text \<open>\<open>run e n evs (locals, s, trace)\<close> handles the events \<open>evs\<close> in order, \<open>n\<close> events
  having been handled before; \<open>locals\<close> holds the \<^verbatim>\<open>device_id\<close> of each open
  connection and \<open>trace\<close> the effects so far.\<close>

fun run :: "env \<Rightarrow> nat \<Rightarrow> event list \<Rightarrow> (conn \<times> dev_id) list \<times> relay_state \<times> effect list
    \<Rightarrow> (conn \<times> dev_id) list \<times> relay_state \<times> effect list" where
  "run e n [] acc = acc"
| "run e n (Message c data # evs) (locals, s, trace) =
     (let (d', s', es) = handle_client_message (env_at e n) c (local_id locals c) data s
      in run e (Suc n) evs (dict_set c d' locals, s', trace @ es))"
| "run e n (Disconnect c # evs) (locals, s, trace) =
     (let (s', es) = handle_client_cleanup (env_at e n) (local_id locals c) s
      in run e (Suc n) evs (dict_del c locals, s', trace @ es))"

subsection \<open>The files on disk\<close>

text \<open>A JSON file is absent, holds text that \<^verbatim>\<open>json.load\<close> rejects (an empty or
  cut-off file), or holds the complete dump of a value.\<close>

datatype 'a json_file = Missing | Unparseable | Dumped 'a

record disk =
  devices_file :: "(dev_id \<times> dev_info) list json_file"
  pairings_file :: "(dev_id \<times> dev_id) list json_file"

text \<open>\<^verbatim>\<open>save_persistent_data\<close> as the sequence of its writes: \<^verbatim>\<open>open(DEVICES_FILE, 'w')\<close>
  empties the file, \<^verbatim>\<open>json.dump\<close> fills it, and the same for the pairings file.\<close>

datatype disk_write =
  Open_devices_w
| Dump_devices "(dev_id \<times> dev_info) list"
| Open_pairings_w
| Dump_pairings "(dev_id \<times> dev_id) list"

definition save_persistent_data ::
  "(dev_id \<times> dev_info) list \<Rightarrow> (dev_id \<times> dev_id) list \<Rightarrow> disk_write list" where
  "save_persistent_data info pairs =
     [Open_devices_w, Dump_devices info, Open_pairings_w, Dump_pairings pairs]"

fun apply_write :: "disk \<Rightarrow> disk_write \<Rightarrow> disk" where
  "apply_write d Open_devices_w = d\<lparr>devices_file := Unparseable\<rparr>"
| "apply_write d (Dump_devices info) = d\<lparr>devices_file := Dumped info\<rparr>"
| "apply_write d Open_pairings_w = d\<lparr>pairings_file := Unparseable\<rparr>"
| "apply_write d (Dump_pairings pairs) = d\<lparr>pairings_file := Dumped pairs\<rparr>"

text \<open>The disk after the process stops when \<open>k\<close> of the writes have been made.\<close>

definition disk_after :: "nat \<Rightarrow> disk_write list \<Rightarrow> disk \<Rightarrow> disk" where
  "disk_after k ws d = foldl apply_write d (take k ws)"

text \<open>\<^verbatim>\<open>load_persistent_data\<close>: a file that is absent leaves the empty store, and so does
  a file that \<^verbatim>\<open>json.load\<close> rejects (the exception is logged).\<close>

definition load_persistent_data :: "disk \<Rightarrow> relay_state" where
  "load_persistent_data d =
     \<lparr>devices = [],
      device_info = (case devices_file d of Dumped info \<Rightarrow> info | _ \<Rightarrow> []),
      paired_devices = (case pairings_file d of Dumped pairs \<Rightarrow> remdups pairs | _ \<Rightarrow> [])\<rparr>"

subsection \<open>Auxiliary notions for the statements\<close>

text \<open>The number that a string of decimal digits denotes, as Python's \<^verbatim>\<open>int(s)\<close> reads
  it; \<open>None\<close> for the empty string and for a string with a character that is not a
  digit. The value of a digit is its position in the string of the ten digits.\<close>

definition digit_value :: "char \<Rightarrow> nat" where
  "digit_value c = length (takeWhile (\<lambda>d. d \<noteq> c) ''0123456789'')"

fun decimal_value_from :: "nat \<Rightarrow> string \<Rightarrow> nat option" where
  "decimal_value_from acc [] = Some acc"
| "decimal_value_from acc (c # cs) =
     (if is_digit c then decimal_value_from (10 * acc + digit_value c) cs else None)"

definition decimal_value :: "string \<Rightarrow> nat option" where
  "decimal_value s = (if s = [] then None else decimal_value_from 0 s)"

text \<open>A draw function in the witnesses: it keeps to the bounds it is given.\<close>

definition randint_example :: "int \<Rightarrow> int \<Rightarrow> int" where
  "randint_example a b = min b (a + 54321)"

fun is_send :: "effect \<Rightarrow> bool" where
  "is_send (Send c r) = True"
| "is_send (Save info pairs) = False"

text \<open>The websockets a list of effects writes to.\<close>

fun send_targets :: "effect list \<Rightarrow> conn list" where
  "send_targets [] = []"
| "send_targets (Send c r # es) = c # send_targets es"
| "send_targets (Save info pairs # es) = send_targets es"

text \<open>The websockets of the registered laptop-class devices, in the order of
  \<^verbatim>\<open>devices.items()\<close>.\<close>

definition laptop_conns :: "relay_state \<Rightarrow> conn list" where
  "laptop_conns s = map snd (filter (\<lambda>p. is_laptop (device_info s) (fst p)) (devices s))"

subsection \<open>Concrete environments and states used as examples\<close>

definition env_ok :: env where
  "env_ok = \<lparr>send_ok = (\<lambda>c. True), now = (\<lambda>k. 1000 + k), sha256_hex = (\<lambda>x. x)\<rparr>"

text \<open>An environment in which every write to websocket 2 raises.\<close>

definition env_conn2_down :: env where
  "env_conn2_down = \<lparr>send_ok = (\<lambda>c. c \<noteq> 2), now = (\<lambda>k. 1000 + k), sha256_hex = (\<lambda>x. x)\<rparr>"

definition info_host :: dev_info where
  "info_host = \<lparr>device_type = Some ''laptop'', device_name = Some ''Laptop'',
     fingerprint = ''host_1:Laptop'', first_seen = 1000, last_seen = 1001\<rparr>"

definition info_mob :: dev_info where
  "info_mob = \<lparr>device_type = Some ''mobile'', device_name = Some ''Phone'',
     fingerprint = ''mob_1:Phone'', first_seen = 1002, last_seen = 1003\<rparr>"

text \<open>The host on websocket 1 and the companion on websocket 2, both registered, not
  paired.\<close>

definition state_registered :: relay_state where
  "state_registered =
     \<lparr>devices = [(Some ''host_1'', 1), (Some ''mob_1'', 2)],
      device_info = [(Some ''host_1'', info_host), (Some ''mob_1'', info_mob)],
      paired_devices = []\<rparr>"

definition register_both :: "event list" where
  "register_both =
     [Message 1 (Register (Some ''host_1'') (Some ''laptop'') (Some ''Laptop'')),
      Message 2 (Register (Some ''mob_1'') (Some ''mobile'') (Some ''Phone''))]"

text \<open>The companion on websocket 1, registered, and a pairing whose first component is
  \<^verbatim>\<open>None\<close>, the id of a connection that has not registered.\<close>

definition state_unregistered_pairing :: relay_state where
  "state_unregistered_pairing =
     \<lparr>devices = [(Some ''mob_1'', 1)],
      device_info = [(Some ''mob_1'', info_mob\<lparr>first_seen := 1000, last_seen := 1001\<rparr>)],
      paired_devices = [(None, Some ''mob_1'')]\<rparr>"

text \<open>The host registered on websocket 1; the companion known to the directory but
  disconnected.\<close>

definition state_companion_offline :: relay_state where
  "state_companion_offline =
     \<lparr>devices = [(Some ''host_1'', 1)],
      device_info = [(Some ''host_1'', info_host), (Some ''mob_1'', info_mob\<lparr>last_seen := 1004\<rparr>)],
      paired_devices = []\<rparr>"

text \<open>Host and companion registered and paired, the pairing stored as (host, companion),
  respectively as (companion, host).\<close>

definition state_paired :: relay_state where
  "state_paired = state_registered\<lparr>paired_devices := [(Some ''host_1'', Some ''mob_1'')]\<rparr>"

definition state_reverse_paired :: relay_state where
  "state_reverse_paired = state_registered\<lparr>paired_devices := [(Some ''mob_1'', Some ''host_1'')]\<rparr>"

lemmas example_defs = initial_state_def state_registered_def env_ok_def env_conn2_down_def
  env_at_def handle_client_message_def relay_register_def relay_pair_response_def
  relay_relay_message_def relay_pair_request_def relay_unpair_device_def
  handle_client_cleanup_def local_id_def dict_has_def dict_del_def info_host_def info_mob_def
  is_paired_def is_laptop_def in_pair_def generate_device_fingerprint_def py_str_def
  register_both_def state_unregistered_pairing_def state_companion_offline_def
  state_paired_def state_reverse_paired_def

text \<open>A host client that has issued the code 482913.\<close>

definition host_client :: client where
  "host_client = \<lparr>self_device_id = ''host_1'', self_device_name = ''Laptop'',
     self_paired_devices = [], pairing_code = Some ''482913''\<rparr>"

text \<open>The stores after \<^verbatim>\<open>mob_1\<close> has registered on websocket 1 and again on websocket 2,
  and websocket 1 has closed.\<close>

definition state_after_first_cleanup :: relay_state where
  "state_after_first_cleanup =
     \<lparr>devices = [],
      device_info = [(Some ''mob_1'', info_mob\<lparr>first_seen := 1000, last_seen := 1004\<rparr>)],
      paired_devices = []\<rparr>"

text \<open>The effects begin with the save of the stores as they are afterwards, and only
  writes to websockets follow.\<close>

definition saved_before_sends :: "relay_state \<Rightarrow> effect list \<Rightarrow> bool" where
  "saved_before_sends s' es =
     (case es of
        [] \<Rightarrow> False
      | first # rest \<Rightarrow> first = Save (device_info s') (paired_devices s') \<and> list_all is_send rest)"

text \<open>A disk that holds the directory with the host alone and no pairing.\<close>

definition disk_old :: disk where
  "disk_old = \<lparr>devices_file = Dumped [(Some ''host_1'', info_host)], pairings_file = Dumped []\<rparr>"

section \<open>Properties\<close>

subsection \<open>Decimal strings of six-digit numbers\<close>

lemma digit_char_is_digit: "is_digit (digit_char d)"
  by (simp add: digit_char_def is_digit_def)

lemma digit_char_zero: "d < 10 \<Longrightarrow> (digit_char d = CHR ''0'') = (d = 0)"
  by (simp add: digit_char_def)

lemma str_nat_small: "n < 10 \<Longrightarrow> str_nat n = [digit_char n]"
  by (simp add: str_nat.simps)

lemma str_nat_step: "10 \<le> n \<Longrightarrow> str_nat n = str_nat (n div 10) @ [digit_char (n mod 10)]"
  by (subst str_nat.simps) simp

lemma str_nat_six:
  assumes "100000 \<le> n" and "n \<le> 999999"
  shows "str_nat n =
    [digit_char (n div 100000), digit_char (n div 10000 mod 10), digit_char (n div 1000 mod 10),
     digit_char (n div 100 mod 10), digit_char (n div 10 mod 10), digit_char (n mod 10)]"
proof -
  have d1: "n div 10 div 10 = n div 100" by (simp add: div_mult2_eq)
  have d2: "n div 100 div 10 = n div 1000" by (simp add: div_mult2_eq)
  have d3: "n div 1000 div 10 = n div 10000" by (simp add: div_mult2_eq)
  have d4: "n div 10000 div 10 = n div 100000" by (simp add: div_mult2_eq)
  have s1: "str_nat n = str_nat (n div 10) @ [digit_char (n mod 10)]"
    using assms by (intro str_nat_step) arith
  have s2: "str_nat (n div 10) = str_nat (n div 100) @ [digit_char (n div 10 mod 10)]"
    using assms str_nat_step [of "n div 10"] by (simp add: d1)
  have s3: "str_nat (n div 100) = str_nat (n div 1000) @ [digit_char (n div 100 mod 10)]"
    using assms str_nat_step [of "n div 100"] by (simp add: d2)
  have s4: "str_nat (n div 1000) = str_nat (n div 10000) @ [digit_char (n div 1000 mod 10)]"
    using assms str_nat_step [of "n div 1000"] by (simp add: d3)
  have s5: "str_nat (n div 10000) = str_nat (n div 100000) @ [digit_char (n div 10000 mod 10)]"
    using assms str_nat_step [of "n div 10000"] by (simp add: d4)
  have s6: "str_nat (n div 100000) = [digit_char (n div 100000)]"
    using assms by (intro str_nat_small) arith
  show ?thesis by (simp add: s1 s2 s3 s4 s5 s6)
qed

lemma str_int_six:
  assumes "100000 \<le> r" and "r \<le> 999999"
  shows "length (str_int r) = 6 \<and> list_all is_digit (str_int r) \<and> hd (str_int r) \<noteq> CHR ''0''"
proof -
  let ?n = "nat r"
  have n: "100000 \<le> ?n" "?n \<le> 999999" using assms by auto
  have lead: "?n div 100000 < 10" "?n div 100000 \<noteq> 0" using n by auto
  have "str_int r = str_nat ?n" using assms by (simp add: str_int_def)
  then show ?thesis
    using lead by (simp add: str_nat_six [OF n] digit_char_is_digit digit_char_zero)
qed

lemma digit_value_digit_char: "d < 10 \<Longrightarrow> digit_value (digit_char d) = d"
  by (auto simp: digit_char_def digit_value_def)

lemma decimal_value_from_snoc:
  "decimal_value_from acc (xs @ [c]) =
     (case decimal_value_from acc xs of
        None \<Rightarrow> None
      | Some v \<Rightarrow> if is_digit c then Some (10 * v + digit_value c) else None)"
  by (induction xs arbitrary: acc) simp_all

lemma decimal_value_from_str_nat: "decimal_value_from 0 (str_nat n) = Some n"
proof (induction n rule: str_nat.induct)
  case (1 n)
  show ?case
  proof (cases "n < 10")
    case True
    then show ?thesis
      by (simp add: str_nat_small digit_char_is_digit digit_value_digit_char)
  next
    case False
    then have step: "str_nat n = str_nat (n div 10) @ [digit_char (n mod 10)]"
      by (simp add: str_nat_step)
    have ih: "decimal_value_from 0 (str_nat (n div 10)) = Some (n div 10)"
      using False by (rule "1.IH")
    show ?thesis
      by (simp add: step decimal_value_from_snoc ih digit_char_is_digit digit_value_digit_char)
  qed
qed

lemma str_nat_not_empty: "str_nat n \<noteq> []"
  by (subst str_nat.simps) simp

lemma decimal_value_str_int: "0 \<le> r \<Longrightarrow> decimal_value (str_int r) = Some (nat r)"
  by (simp add: decimal_value_def str_int_def str_nat_not_empty decimal_value_from_str_nat)

text \<open>
  Claim C10. \<^verbatim>\<open>generate_pairing_code\<close> calls \<^verbatim>\<open>random.randint(100000, 999999)\<close>; for
  every draw function that keeps to the bounds it is given (the contract of
  \<^verbatim>\<open>random.randint\<close>), the draw lies in [100000, 999999], the code is the decimal string
  of the draw (its digits denote the draw), it has exactly six characters, all of them
  decimal digits, and does not start with the digit 0; the client then holds that code, and
  \<^verbatim>\<open>handle_pair_request\<close> rejects every offer whose code starts with the digit 0.
\<close>

theorem generated_code_six_digits_no_leading_zero:
  assumes contract: "\<And>a b. a \<le> b \<Longrightarrow> a \<le> randint a b \<and> randint a b \<le> b"
    and gen: "generate_pairing_code randint c = (code, c')"
    and offer: "offered \<noteq> []" "hd offered = CHR ''0''"
  shows "100000 \<le> randint 100000 999999 \<and> randint 100000 999999 \<le> 999999
    \<and> code = str_int (randint 100000 999999)
    \<and> decimal_value code = Some (nat (randint 100000 999999))
    \<and> length code = 6 \<and> list_all is_digit code \<and> hd code \<noteq> CHR ''0''
    \<and> c' = c\<lparr>pairing_code := Some code\<rparr>
    \<and> handle_pair_request c' (Some offered) from_id name
        = (c', Pair_response from_id False ''Invalid pairing code'')"
proof -
  let ?r = "randint 100000 999999"
  have range: "100000 \<le> ?r \<and> ?r \<le> 999999"
    by (rule contract) simp
  have code: "code = str_int ?r" and c': "c' = c\<lparr>pairing_code := Some (str_int ?r)\<rparr>"
    using gen by (auto simp: generate_pairing_code_def Let_def)
  have six: "length (str_int ?r) = 6 \<and> list_all is_digit (str_int ?r)
      \<and> hd (str_int ?r) \<noteq> CHR ''0''"
    using range by (intro str_int_six) simp_all
  have denotes: "decimal_value (str_int ?r) = Some (nat ?r)"
    using range by (intro decimal_value_str_int) simp
  have "offered \<noteq> str_int ?r" using six offer(2) by auto
  then have "\<not> code_matches c' (Some offered)"
    by (simp add: code_matches_def c')
  then have reject: "handle_pair_request c' (Some offered) from_id name
      = (c', Pair_response from_id False ''Invalid pairing code'')"
    by (simp add: handle_pair_request_def)
  from range six denotes reject show ?thesis
    by (simp add: code c')
qed

theorem generated_code_six_digits_no_leading_zero_witness:
  "randint_example 100000 999999 = 154321
   \<and> generate_pairing_code randint_example
        \<lparr>self_device_id = ''laptop_h_1'', self_device_name = ''Laptop'',
         self_paired_devices = [], pairing_code = None\<rparr>
       = (''154321'',
          \<lparr>self_device_id = ''laptop_h_1'', self_device_name = ''Laptop'',
           self_paired_devices = [], pairing_code = Some ''154321''\<rparr>)
   \<and> decimal_value ''154321'' = Some 154321
   \<and> length ''154321'' = 6
   \<and> hd ''012345'' = CHR ''0''
   \<and> handle_pair_request
        \<lparr>self_device_id = ''laptop_h_1'', self_device_name = ''Laptop'',
         self_paired_devices = [], pairing_code = Some ''154321''\<rparr>
        (Some ''012345'') (Some ''mob_1'') (Some ''Phone'')
       = (\<lparr>self_device_id = ''laptop_h_1'', self_device_name = ''Laptop'',
           self_paired_devices = [], pairing_code = Some ''154321''\<rparr>,
          Pair_response (Some ''mob_1'') False ''Invalid pairing code'')"
proof -
  have contract: "\<And>a b. a \<le> b \<Longrightarrow> a \<le> randint_example a b \<and> randint_example a b \<le> b"
    by (simp add: randint_example_def)
  have draw: "randint_example 100000 999999 = 154321"
    by (simp add: randint_example_def)
  have g: "generate_pairing_code randint_example
        \<lparr>self_device_id = ''laptop_h_1'', self_device_name = ''Laptop'',
         self_paired_devices = [], pairing_code = None\<rparr>
       = (''154321'',
          \<lparr>self_device_id = ''laptop_h_1'', self_device_name = ''Laptop'',
           self_paired_devices = [], pairing_code = Some ''154321''\<rparr>)"
    by (simp add: generate_pairing_code_def Let_def draw str_int_def str_nat.simps
        digit_char_def)
  have str: "str_int 154321 = ''154321''"
    by (simp add: str_int_def str_nat.simps digit_char_def)
  have dv: "decimal_value ''154321'' = Some 154321"
    by (simp add: decimal_value_def is_digit_def digit_value_def)
  note inst = generated_code_six_digits_no_leading_zero
      [OF contract g, of "''012345''" "Some ''mob_1''" "Some ''Phone''", unfolded draw str]
  have rej: "handle_pair_request
        \<lparr>self_device_id = ''laptop_h_1'', self_device_name = ''Laptop'',
         self_paired_devices = [], pairing_code = Some ''154321''\<rparr>
        (Some ''012345'') (Some ''mob_1'') (Some ''Phone'')
       = (\<lparr>self_device_id = ''laptop_h_1'', self_device_name = ''Laptop'',
           self_paired_devices = [], pairing_code = Some ''154321''\<rparr>,
          Pair_response (Some ''mob_1'') False ''Invalid pairing code'')"
    using inst by simp
  from draw g dv rej show ?thesis
    by simp
qed

subsection \<open>Relaying\<close>




text \<open>
  Claim C3, as stated, fails: the write to the target sits in \<^verbatim>\<open>try: ... except: pass\<close>,
  and the branch writes nothing to the sender in either case. Here the host and the
  companion are paired and both registered, every write to the companion's websocket 2
  raises, and the host's \<^verbatim>\<open>relay_message\<close> produces the attempted write to websocket 2
  and nothing on the host's websocket 1.
\<close>

theorem relay_write_failure_not_reported:
  "\<not> send_ok env_conn2_down 2
   \<and> is_paired state_paired (Some ''host_1'') (Some ''mob_1'')
   \<and> map_of (devices state_paired) (Some ''mob_1'') = Some 2
   \<and> handle_client_message env_conn2_down 1 (Some ''host_1'')
        (Relay_message (Some ''mob_1'') ''auth_request'' ''{}'') state_paired
      = (Some ''host_1'', state_paired, [Send 2 (Relayed (Some ''host_1'') ''auth_request'' ''{}'')])"
  by (simp add: example_defs)

text \<open>
  Claim C3, amended. For every \<^verbatim>\<open>relay_message\<close> whose sender and target are paired and
  whose target has an entry in the connection registry, the relay makes exactly one write,
  of \<^verbatim>\<open>relay_message\<close> with the sender's id, the message type and the payload, to the
  target's websocket, and writes nothing to the sender, whether or not that write
  succeeds; a failed write is passed over.
\<close>

theorem relay_paired_online_single_write:
  assumes "is_paired s device_id target_id"
    and "map_of (devices s) target_id = Some target_ws"
  shows "handle_client_message e websocket device_id
           (Relay_message target_id message_type payload) s
    = (device_id, s, [Send target_ws (Relayed device_id message_type payload)])"
  using assms by (simp add: handle_client_message_def relay_relay_message_def)

theorem relay_paired_online_single_write_witness:
  "is_paired state_paired (Some ''host_1'') (Some ''mob_1'')
   \<and> map_of (devices state_paired) (Some ''mob_1'') = Some 2
   \<and> handle_client_message env_ok 1 (Some ''host_1'')
        (Relay_message (Some ''mob_1'') ''auth_request'' ''{}'') state_paired
      = (Some ''host_1'', state_paired, [Send 2 (Relayed (Some ''host_1'') ''auth_request'' ''{}'')])"
proof -
  have a: "is_paired state_paired (Some ''host_1'') (Some ''mob_1'')"
    and b: "map_of (devices state_paired) (Some ''mob_1'') = Some 2"
    by (simp_all add: is_paired_def state_paired_def state_registered_def)
  show ?thesis
    using a b relay_paired_online_single_write [OF a b, of env_ok 1 "''auth_request''" "''{}''"]
    by simp
qed

subsection \<open>Pairing\<close>

text \<open>
  Claim C2, as stated, fails for a target that has no entry in the connection registry:
  the branch is guarded by \<^verbatim>\<open>if target_id in devices\<close>. The companion registers and
  disconnects; the host's accepting \<^verbatim>\<open>pair_response\<close> then changes nothing and
  notifies nobody.
\<close>

theorem pair_response_offline_target_ignored:
  "run env_ok 0 (register_both @ [Disconnect 2]) ([], initial_state, [])
   = ([(1, Some ''host_1'')], state_companion_offline,
      [Save [(Some ''host_1'', info_host)] [], Send 1 (Registered (Some ''host_1'') False),
       Save [(Some ''host_1'', info_host), (Some ''mob_1'', info_mob)] [],
       Send 2 (Registered (Some ''mob_1'') False),
       Save [(Some ''host_1'', info_host), (Some ''mob_1'', info_mob\<lparr>last_seen := 1004\<rparr>)] []])
   \<and> handle_client_message env_ok 1 (Some ''host_1'')
        (Pair_response (Some ''mob_1'') True ''Paired with Laptop (persistent)'') state_companion_offline
      = (Some ''host_1'', state_companion_offline, [])"
  by (simp add: example_defs)

text \<open>
  Claim C2, amended. For every \<^verbatim>\<open>pair_response\<close> with \<^verbatim>\<open>accepted\<close> true whose target
  has an entry in the connection registry, where the sender and the target are both in the
  device directory and the write to the sender's websocket succeeds: the relay adds the
  pairing (sender, target) to the pairing store, saves the stores, and then writes a
  \<^verbatim>\<open>paired\<close> notification to the sender, carrying the target's id and display name,
  and one to the target's websocket, carrying the sender's id and display name.
\<close>

theorem pair_response_accepted_pairs_and_notifies:
  assumes "map_of (devices s) target_id = Some target_ws"
    and "map_of (device_info s) target_id = Some ti"
    and "map_of (device_info s) device_id = Some di"
    and "send_ok e websocket"
  shows "handle_client_message e websocket device_id (Pair_response target_id True message) s
    = (device_id,
       s\<lparr>paired_devices := List.insert (device_id, target_id) (paired_devices s)\<rparr>,
       [Save (device_info s) (List.insert (device_id, target_id) (paired_devices s)),
        Send websocket (Paired target_id (device_name ti) message),
        Send target_ws (Paired device_id (device_name di)
          ''Successfully paired with laptop (persistent)'')])
    \<and> is_paired (s\<lparr>paired_devices := List.insert (device_id, target_id) (paired_devices s)\<rparr>)
         device_id target_id"
  using assms by (simp add: handle_client_message_def relay_pair_response_def is_paired_def)

theorem pair_response_accepted_pairs_and_notifies_witness:
  "map_of (devices state_registered) (Some ''mob_1'') = Some 2
   \<and> map_of (device_info state_registered) (Some ''mob_1'') = Some info_mob
   \<and> map_of (device_info state_registered) (Some ''host_1'') = Some info_host
   \<and> send_ok env_ok 1
   \<and> handle_client_message env_ok 1 (Some ''host_1'')
        (Pair_response (Some ''mob_1'') True ''Paired with Laptop (persistent)'') state_registered
      = (Some ''host_1'', state_paired,
         [Save [(Some ''host_1'', info_host), (Some ''mob_1'', info_mob)]
            [(Some ''host_1'', Some ''mob_1'')],
          Send 1 (Paired (Some ''mob_1'') (Some ''Phone'') ''Paired with Laptop (persistent)''),
          Send 2 (Paired (Some ''host_1'') (Some ''Laptop'')
            ''Successfully paired with laptop (persistent)'')])
   \<and> is_paired state_paired (Some ''host_1'') (Some ''mob_1'')"
proof -
  have a: "map_of (devices state_registered) (Some ''mob_1'') = Some 2"
    and b: "map_of (device_info state_registered) (Some ''mob_1'') = Some info_mob"
    and c: "map_of (device_info state_registered) (Some ''host_1'') = Some info_host"
    and d: "send_ok env_ok 1"
    by (simp_all add: state_registered_def env_ok_def)
  show ?thesis
    using a b c d pair_response_accepted_pairs_and_notifies
      [OF a b c d, of "''Paired with Laptop (persistent)''"]
    by (simp add: state_paired_def state_registered_def info_host_def info_mob_def)
qed

text \<open>
  Claim C6, as stated, fails: the \<^verbatim>\<open>pair_request\<close> branch does not look at the code.
  An offer with the two-character code \<^verbatim>\<open>12\<close> is written to the host's websocket 1, and
  the companion gets no \<^verbatim>\<open>pairing_failed\<close>.
\<close>

theorem malformed_code_forwarded:
  "length ''12'' \<noteq> 6
   \<and> handle_client_message env_ok 2 (Some ''mob_1'') (Pair_request (Some ''12'') (Some ''Phone''))
       state_registered
     = (Some ''mob_1'', state_registered,
        [Send 1 (Fwd_pair_request (Some ''mob_1'') (Some ''12'') (Some ''Phone''))])"
  by (simp add: example_defs)

lemma forward_to_laptop_writes:
  "forward_to_laptop e info offer ds =
     (map (\<lambda>c. Send c offer)
        (takeWhile (\<lambda>c. \<not> send_ok e c) (map snd (filter (\<lambda>p. is_laptop info (fst p)) ds)))
      @ (case dropWhile (\<lambda>c. \<not> send_ok e c) (map snd (filter (\<lambda>p. is_laptop info (fst p)) ds)) of
           [] \<Rightarrow> [] | c # cs \<Rightarrow> [Send c offer]),
      dropWhile (\<lambda>c. \<not> send_ok e c) (map snd (filter (\<lambda>p. is_laptop info (fst p)) ds)) \<noteq> [])"
  by (induction e info offer ds rule: forward_to_laptop.induct)
    (simp_all del: dropWhile_eq_Nil_conv add: split_beta)

text \<open>
  Claim C6, amended. For every \<^verbatim>\<open>pair_request\<close>, whatever its \<^verbatim>\<open>pairing_code\<close> (its
  format is not checked), the relay writes the offer, with the code unchanged, to the
  websockets of the registered laptop-class devices in registry order, up to and including
  the first write that succeeds; it writes \<^verbatim>\<open>pairing_failed\<close> "No laptops available" to
  the companion exactly when no such write succeeds. The stores are unchanged.
\<close>

theorem pair_request_forwarded_unchecked:
  "handle_client_message e websocket device_id (Pair_request code name) s =
     (device_id, s,
      map (\<lambda>c. Send c (Fwd_pair_request device_id code name))
        (takeWhile (\<lambda>c. \<not> send_ok e c) (laptop_conns s))
      @ (case dropWhile (\<lambda>c. \<not> send_ok e c) (laptop_conns s) of
           [] \<Rightarrow> [Send websocket (Pairing_failed ''No laptops available'')]
         | c # cs \<Rightarrow> [Send c (Fwd_pair_request device_id code name)]))"
  by (cases "dropWhile (\<lambda>c. \<not> send_ok e c) (laptop_conns s)")
    (simp_all del: dropWhile_eq_Nil_conv add: handle_client_message_def relay_pair_request_def
      forward_to_laptop_writes laptop_conns_def)

theorem pair_request_forwarded_unchecked_witness:
  "laptop_conns state_registered = [1]
   \<and> handle_client_message env_ok 2 (Some ''mob_1'') (Pair_request (Some ''48x'') (Some ''Phone''))
       state_registered
     = (Some ''mob_1'', state_registered,
        [Send 1 (Fwd_pair_request (Some ''mob_1'') (Some ''48x'') (Some ''Phone''))])"
proof -
  have l: "laptop_conns state_registered = [1]"
    by (simp add: laptop_conns_def example_defs)
  show ?thesis
    using l pair_request_forwarded_unchecked
      [of env_ok 2 "Some ''mob_1''" "Some ''48x''" "Some ''Phone''" state_registered]
    by (simp add: env_ok_def)
qed

subsection \<open>The host's pairing code\<close>

text \<open>
  Claim C4, as stated, fails: nothing in the client clears or replaces \<^verbatim>\<open>pairing_code\<close>
  after an accepted offer. The host accepts the offer of \<^verbatim>\<open>mob_1\<close> with its code 482913,
  handles the relay's \<^verbatim>\<open>paired\<close> notification, and then accepts the offer of
  \<^verbatim>\<open>mob_2\<close> carrying the same code.
\<close>

theorem pairing_code_accepted_twice:
  "client_handle_message host_client
     (Fwd_pair_request (Some ''mob_1'') (Some ''482913'') (Some ''Phone''))
   = (host_client, [Pair_response (Some ''mob_1'') True ''Paired with Laptop (persistent)''])
   \<and> client_handle_message host_client
       (Paired (Some ''mob_1'') (Some ''Phone'') ''Paired with Laptop (persistent)'')
     = (host_client\<lparr>self_paired_devices := [(Some ''mob_1'', Some ''Phone'', Some ''mobile'')]\<rparr>, [])
   \<and> client_handle_message
       (host_client\<lparr>self_paired_devices := [(Some ''mob_1'', Some ''Phone'', Some ''mobile'')]\<rparr>)
       (Fwd_pair_request (Some ''mob_2'') (Some ''482913'') (Some ''Tablet''))
     = (host_client\<lparr>self_paired_devices := [(Some ''mob_1'', Some ''Phone'', Some ''mobile'')]\<rparr>,
        [Pair_response (Some ''mob_2'') True ''Paired with Laptop (persistent)''])"
  by (simp add: host_client_def client_handle_message_def handle_pair_request_def code_matches_def)

lemma paired_keeps_code:
  "pairing_code (fst (client_handle_message c (Paired p n msg))) = pairing_code c"
  by (simp add: client_handle_message_def)

text \<open>
  Claim C4, amended. A pairing code is not consumed by use: when the host accepts an offer,
  \<^verbatim>\<open>handle_pair_request\<close> leaves the client (and so its code) unchanged, the
  \<^verbatim>\<open>paired\<close> notification that follows leaves the code unchanged, and a second offer
  carrying the same code is accepted again.
\<close>

theorem pairing_code_kept_after_accept:
  assumes "handle_pair_request c offered from1 name1 = (c', Pair_response from1 True m)"
  shows "c' = c
    \<and> pairing_code (fst (client_handle_message c' (Paired from1 name1 m))) = pairing_code c
    \<and> handle_pair_request c' offered from2 name2 = (c', Pair_response from2 True m)"
  using assms
  by (auto simp: handle_pair_request_def paired_keeps_code split: if_splits)

theorem pairing_code_kept_after_accept_witness:
  "handle_pair_request host_client (Some ''482913'') (Some ''mob_1'') (Some ''Phone'')
     = (host_client, Pair_response (Some ''mob_1'') True ''Paired with Laptop (persistent)'')
   \<and> pairing_code (fst (client_handle_message host_client
         (Paired (Some ''mob_1'') (Some ''Phone'') ''Paired with Laptop (persistent)'')))
       = Some ''482913''
   \<and> handle_pair_request host_client (Some ''482913'') (Some ''mob_2'') (Some ''Tablet'')
     = (host_client, Pair_response (Some ''mob_2'') True ''Paired with Laptop (persistent)'')"
proof -
  have h: "handle_pair_request host_client (Some ''482913'') (Some ''mob_1'') (Some ''Phone'')
     = (host_client, Pair_response (Some ''mob_1'') True ''Paired with Laptop (persistent)'')"
    by (simp add: host_client_def handle_pair_request_def code_matches_def)
  have c: "pairing_code host_client = Some ''482913''" by (simp add: host_client_def)
  show ?thesis
    using h c pairing_code_kept_after_accept [OF h, of "Some ''mob_2''" "Some ''Tablet''"]
    by simp
qed

subsection \<open>Dictionaries and the \<^verbatim>\<open>register\<close> branch\<close>

lemma map_of_dict_set: "map_of (dict_set k v d) k = Some v"
  by (induction d) auto

lemma map_fst_dict_set:
  "map fst (dict_set k v d) = (if k \<in> set (map fst d) then map fst d else map fst d @ [k])"
  by (induction d) force+

lemma distinct_dict_set: "distinct (map fst d) \<Longrightarrow> distinct (map fst (dict_set k v d))"
  by (simp add: map_fst_dict_set)

lemma one_entry_per_key:
  "distinct (map fst d) \<Longrightarrow> map_of d k = Some v \<Longrightarrow> length (filter (\<lambda>p. fst p = k) d) = 1"
proof (induction d)
  case Nil
  then show ?case by simp
next
  case (Cons p d)
  show ?case
  proof (cases "fst p = k")
    case True
    with Cons.prems have "filter (\<lambda>q. fst q = k) d = []"
      by (auto simp: filter_empty_conv image_iff)
    with True show ?thesis by simp
  next
    case False
    with Cons show ?thesis by (cases p) auto
  qed
qed

lemma map_fst_dict_modify: "map fst (dict_modify k f d) = map fst d"
  by (induction d) auto

lemma map_of_dict_modify:
  "map_of (dict_modify k f d) k' = (if k' = k then map_option f (map_of d k) else map_of d k')"
  by (induction d) auto

lemma register_devices:
  "devices (fst (relay_register e ws did t n s)) = dict_set did ws (devices s)"
  by (simp add: relay_register_def Let_def)

lemma register_pairs:
  "paired_devices (fst (relay_register e ws did t n s)) = paired_devices s"
  by (simp add: relay_register_def Let_def)

lemma register_info_known:
  "dict_has (device_info s) did \<Longrightarrow>
   device_info (fst (relay_register e ws did t n s))
     = dict_modify did (\<lambda>i. i\<lparr>last_seen := now e 0\<rparr>) (device_info s)"
  by (auto simp: relay_register_def Let_def)

lemma register_writes: "set (send_targets (snd (relay_register e ws did t n s))) \<subseteq> {ws}"
  by (simp add: relay_register_def Let_def)

lemma handle_register:
  "handle_client_message e ws old (Register did t n) s =
     (did, fst (relay_register e ws did t n s), snd (relay_register e ws did t n s))"
  by (simp add: handle_client_message_def split_beta)


subsection \<open>Sessions\<close>

text \<open>
  Claim C5, as stated, fails. The handler never closes a websocket, and the \<^verbatim>\<open>finally\<close>
  block of the superseded connection deletes the registry entry by device id, whichever
  websocket it holds. \<^verbatim>\<open>mob_1\<close> registers on websocket 1, then on websocket 2; the second
  registration writes to websocket 2 only; when websocket 1 closes, the registry loses the
  entry of \<^verbatim>\<open>mob_1\<close>, so the second connection, still open, is not reachable.
\<close>

theorem second_session_unreachable_after_first_cleanup:
  "run env_ok 0
     [Message 1 (Register (Some ''mob_1'') (Some ''mobile'') (Some ''Phone'')),
      Message 2 (Register (Some ''mob_1'') (Some ''mobile'') (Some ''Phone'')),
      Disconnect 1] ([], initial_state, [])
   = ([(2, Some ''mob_1'')], state_after_first_cleanup,
      [Save [(Some ''mob_1'', info_mob\<lparr>first_seen := 1000, last_seen := 1001\<rparr>)] [],
       Send 1 (Registered (Some ''mob_1'') False),
       Save [(Some ''mob_1'', info_mob\<lparr>first_seen := 1000, last_seen := 1002\<rparr>)] [],
       Send 2 (Registered (Some ''mob_1'') True),
       Save [(Some ''mob_1'', info_mob\<lparr>first_seen := 1000, last_seen := 1004\<rparr>)] []])
   \<and> map_of (devices state_after_first_cleanup) (Some ''mob_1'') = None"
  by (simp add: example_defs state_after_first_cleanup_def)

text \<open>
  Claim C5, amended. The registry holds at most one entry per device id: when a device id
  registers on a connection while the registry holds an entry for that id, the entry is
  replaced, so that after the registration the id maps to the registering connection and
  to no other; the registration writes to the registering connection only (the relay does
  not close the superseded connection).
\<close>

theorem register_replaces_registry_entry:
  assumes "distinct (map fst (devices s))"
    and "handle_client_message e websocket old_id (Register device_id dtype dname) s = (d', s', es)"
  shows "d' = device_id
    \<and> map_of (devices s') device_id = Some websocket
    \<and> length (filter (\<lambda>p. fst p = device_id) (devices s')) = 1
    \<and> set (send_targets es) \<subseteq> {websocket}"
proof -
  from assms(2) have d: "d' = device_id"
    and s': "s' = fst (relay_register e websocket device_id dtype dname s)"
    and es: "es = snd (relay_register e websocket device_id dtype dname s)"
    by (auto simp: handle_register)
  have reg: "devices s' = dict_set device_id websocket (devices s)"
    by (simp add: s' register_devices)
  have look: "map_of (devices s') device_id = Some websocket"
    by (simp add: reg map_of_dict_set)
  have "distinct (map fst (devices s'))"
    using assms(1) by (simp add: reg distinct_dict_set)
  then have one: "length (filter (\<lambda>p. fst p = device_id) (devices s')) = 1"
    using look by (rule one_entry_per_key)
  have "set (send_targets es) \<subseteq> {websocket}"
    unfolding es by (rule register_writes)
  with d look one show ?thesis by simp
qed

theorem register_replaces_registry_entry_witness:
  "distinct (map fst (devices state_registered))
   \<and> handle_client_message env_ok 3 None (Register (Some ''mob_1'') (Some ''mobile'') (Some ''Phone''))
       state_registered
     = (Some ''mob_1'',
        state_registered\<lparr>devices := [(Some ''host_1'', 1), (Some ''mob_1'', 3)],
          device_info := [(Some ''host_1'', info_host), (Some ''mob_1'', info_mob\<lparr>last_seen := 1000\<rparr>)]\<rparr>,
        [Save [(Some ''host_1'', info_host), (Some ''mob_1'', info_mob\<lparr>last_seen := 1000\<rparr>)] [],
         Send 3 (Registered (Some ''mob_1'') True)])
   \<and> map_of [(Some ''host_1'', 1), (Some ''mob_1'', 3::nat)] (Some ''mob_1'') = Some 3
   \<and> length (filter (\<lambda>p. fst p = Some ''mob_1'') [(Some ''host_1'', 1), (Some ''mob_1'', 3::nat)]) = 1
   \<and> set (send_targets
        [Save [(Some ''host_1'', info_host), (Some ''mob_1'', info_mob\<lparr>last_seen := 1000\<rparr>)] [],
         Send 3 (Registered (Some ''mob_1'') True)]) \<subseteq> {3}"
proof -
  have a: "distinct (map fst (devices state_registered))"
    by (simp add: state_registered_def)
  have b: "handle_client_message env_ok 3 None
       (Register (Some ''mob_1'') (Some ''mobile'') (Some ''Phone'')) state_registered
     = (Some ''mob_1'',
        state_registered\<lparr>devices := [(Some ''host_1'', 1), (Some ''mob_1'', 3)],
          device_info := [(Some ''host_1'', info_host), (Some ''mob_1'', info_mob\<lparr>last_seen := 1000\<rparr>)]\<rparr>,
        [Save [(Some ''host_1'', info_host), (Some ''mob_1'', info_mob\<lparr>last_seen := 1000\<rparr>)] [],
         Send 3 (Registered (Some ''mob_1'') True)])"
    by (simp add: example_defs)
  show ?thesis
    using a b register_replaces_registry_entry [OF a b] by simp
qed

subsection \<open>The pairing store\<close>

text \<open>
  Claim C7, as stated, fails for the reverse orientation: the store is a set of ordered
  tuples and \<^verbatim>\<open>pair_response\<close> adds (sender, target) as it is. With (\<^verbatim>\<open>mob_1\<close>,
  \<^verbatim>\<open>host_1\<close>) stored (the companion answered a \<^verbatim>\<open>pair_response\<close> for the host), the
  host's \<^verbatim>\<open>pair_response\<close> for the companion adds (\<^verbatim>\<open>host_1\<close>, \<^verbatim>\<open>mob_1\<close>): the stored
  set grows from one tuple to two.
\<close>

theorem reverse_pair_added_again:
  "run env_ok 0 (register_both @ [Message 2 (Pair_response (Some ''host_1'') True ''ok'')])
     ([], initial_state, [])
   = ([(1, Some ''host_1''), (2, Some ''mob_1'')], state_reverse_paired,
      [Save [(Some ''host_1'', info_host)] [], Send 1 (Registered (Some ''host_1'') False),
       Save [(Some ''host_1'', info_host), (Some ''mob_1'', info_mob)] [],
       Send 2 (Registered (Some ''mob_1'') False),
       Save [(Some ''host_1'', info_host), (Some ''mob_1'', info_mob)]
         [(Some ''mob_1'', Some ''host_1'')],
       Send 2 (Paired (Some ''host_1'') (Some ''Laptop'') ''ok''),
       Send 1 (Paired (Some ''mob_1'') (Some ''Phone'')
         ''Successfully paired with laptop (persistent)'')])
   \<and> paired_devices (fst (snd (handle_client_message env_ok 1 (Some ''host_1'')
        (Pair_response (Some ''mob_1'') True ''ok'') state_reverse_paired)))
     = [(Some ''host_1'', Some ''mob_1''), (Some ''mob_1'', Some ''host_1'')]
   \<and> paired_devices state_reverse_paired = [(Some ''mob_1'', Some ''host_1'')]
   \<and> set [(Some ''host_1'', Some ''mob_1''), (Some ''mob_1'', Some ''host_1'')]
       \<noteq> set [(Some ''mob_1'', Some ''host_1'')]"
  by (simp add: example_defs)

text \<open>
  Claim C7, amended. Adding the pairing (A, B) through an accepted \<^verbatim>\<open>pair_response\<close>
  inserts the ordered tuple (A, B) into the stored set. When the store already contains
  (A, B) in that orientation the stored set is unchanged; when it contains the pairing in
  either orientation, the relation the relay tests (membership in either order) is
  unchanged for every two device ids.
\<close>

theorem pairing_add_same_orientation_noop:
  assumes "map_of (devices s) target_id = Some target_ws"
    and "handle_client_message e websocket device_id (Pair_response target_id True message) s
           = (d', s', es)"
  shows "set (paired_devices s') = insert (device_id, target_id) (set (paired_devices s))
    \<and> ((device_id, target_id) \<in> set (paired_devices s) \<longrightarrow> paired_devices s' = paired_devices s)
    \<and> (is_paired s device_id target_id \<longrightarrow> is_paired s' a b = is_paired s a b)"
proof -
  have s': "paired_devices s' = List.insert (device_id, target_id) (paired_devices s)"
    using assms
    by (auto simp: handle_client_message_def relay_pair_response_def Let_def
        split: option.splits if_splits)
  show ?thesis
    by (auto simp: s' is_paired_def)
qed

theorem pairing_add_same_orientation_noop_witness:
  "map_of (devices state_paired) (Some ''mob_1'') = Some 2
   \<and> (Some ''host_1'', Some ''mob_1'') \<in> set (paired_devices state_paired)
   \<and> is_paired state_paired (Some ''host_1'') (Some ''mob_1'')
   \<and> handle_client_message env_ok 1 (Some ''host_1'') (Pair_response (Some ''mob_1'') True ''ok'')
       state_paired
     = (Some ''host_1'', state_paired,
        [Save [(Some ''host_1'', info_host), (Some ''mob_1'', info_mob)]
           [(Some ''host_1'', Some ''mob_1'')],
         Send 1 (Paired (Some ''mob_1'') (Some ''Phone'') ''ok''),
         Send 2 (Paired (Some ''host_1'') (Some ''Laptop'')
           ''Successfully paired with laptop (persistent)'')])
   \<and> set (paired_devices state_paired)
       = insert (Some ''host_1'', Some ''mob_1'') (set (paired_devices state_paired))
   \<and> is_paired state_paired (Some ''mob_1'') (Some ''host_1'')"
proof -
  have a: "map_of (devices state_paired) (Some ''mob_1'') = Some 2"
    by (simp add: state_paired_def state_registered_def)
  have b: "handle_client_message env_ok 1 (Some ''host_1'')
       (Pair_response (Some ''mob_1'') True ''ok'') state_paired
     = (Some ''host_1'', state_paired,
        [Save [(Some ''host_1'', info_host), (Some ''mob_1'', info_mob)]
           [(Some ''host_1'', Some ''mob_1'')],
         Send 1 (Paired (Some ''mob_1'') (Some ''Phone'') ''ok''),
         Send 2 (Paired (Some ''host_1'') (Some ''Laptop'')
           ''Successfully paired with laptop (persistent)'')])"
    by (simp add: example_defs)
  have c: "(Some ''host_1'', Some ''mob_1'') \<in> set (paired_devices state_paired)"
    and d: "is_paired state_paired (Some ''host_1'') (Some ''mob_1'')"
    and f: "is_paired state_paired (Some ''mob_1'') (Some ''host_1'')"
    by (simp_all add: is_paired_def state_paired_def)
  show ?thesis
    using a b c d f
      pairing_add_same_orientation_noop [OF a b, of "Some ''mob_1''" "Some ''host_1''"]
    by simp
qed

subsection \<open>The device directory\<close>

text \<open>
  Claim C8, as stated, fails for the display name: for a known device the \<^verbatim>\<open>register\<close>
  branch assigns \<^verbatim>\<open>last_seen\<close> only. \<^verbatim>\<open>mob_1\<close> registers as "Phone" and then as
  "Pixel"; the directory entry still carries "Phone".
\<close>

theorem reregistration_keeps_old_name:
  "run env_ok 0
     [Message 1 (Register (Some ''mob_1'') (Some ''mobile'') (Some ''Phone'')),
      Message 1 (Register (Some ''mob_1'') (Some ''mobile'') (Some ''Pixel''))]
     ([], initial_state, [])
   = ([(1, Some ''mob_1'')],
      \<lparr>devices = [(Some ''mob_1'', 1)],
       device_info = [(Some ''mob_1'', info_mob\<lparr>first_seen := 1000, last_seen := 1002\<rparr>)],
       paired_devices = []\<rparr>,
      [Save [(Some ''mob_1'', info_mob\<lparr>first_seen := 1000, last_seen := 1001\<rparr>)] [],
       Send 1 (Registered (Some ''mob_1'') False),
       Save [(Some ''mob_1'', info_mob\<lparr>first_seen := 1000, last_seen := 1002\<rparr>)] [],
       Send 1 (Registered (Some ''mob_1'') True)])
   \<and> device_name (info_mob\<lparr>first_seen := 1000, last_seen := 1002\<rparr>) = Some ''Phone''
   \<and> Some ''Phone'' \<noteq> Some ''Pixel''"
  by (simp add: example_defs)

text \<open>
  Claim C8, amended. Registering a device id that the directory already holds leaves
  exactly one directory entry for that id, keeps the keys of the directory and every other
  entry as they were, and updates that entry's \<^verbatim>\<open>last_seen\<close> only: its display name,
  type, fingerprint and \<^verbatim>\<open>first_seen\<close> stay as first registered.
\<close>

theorem reregistration_updates_last_seen_only:
  assumes "map_of (device_info s) device_id = Some i"
    and "distinct (map fst (device_info s))"
    and "handle_client_message e websocket old_id (Register device_id dtype dname) s = (d', s', es)"
  shows "map_of (device_info s') device_id = Some (i\<lparr>last_seen := now e 0\<rparr>)
    \<and> map fst (device_info s') = map fst (device_info s)
    \<and> length (filter (\<lambda>p. fst p = device_id) (device_info s')) = 1
    \<and> (k \<noteq> device_id \<longrightarrow> map_of (device_info s') k = map_of (device_info s) k)"
proof -
  from assms(3) have s': "s' = fst (relay_register e websocket device_id dtype dname s)"
    by (auto simp: handle_register)
  have known: "dict_has (device_info s) device_id"
    using assms(1) by (simp add: dict_has_def)
  have info: "device_info s' = dict_modify device_id (\<lambda>i. i\<lparr>last_seen := now e 0\<rparr>) (device_info s)"
    by (simp add: s' register_info_known [OF known])
  have entry: "map_of (device_info s') device_id = Some (i\<lparr>last_seen := now e 0\<rparr>)"
    using assms(1) by (simp add: info map_of_dict_modify)
  have keys: "map fst (device_info s') = map fst (device_info s)"
    by (simp add: info map_fst_dict_modify)
  have "distinct (map fst (device_info s'))"
    using assms(2) by (simp add: keys)
  then have one: "length (filter (\<lambda>p. fst p = device_id) (device_info s')) = 1"
    using entry by (rule one_entry_per_key)
  have rest: "k \<noteq> device_id \<longrightarrow> map_of (device_info s') k = map_of (device_info s) k"
    by (simp add: info map_of_dict_modify)
  from entry keys one rest show ?thesis by simp
qed

theorem reregistration_updates_last_seen_only_witness:
  "map_of (device_info state_registered) (Some ''mob_1'') = Some info_mob
   \<and> distinct (map fst (device_info state_registered))
   \<and> handle_client_message env_ok 2 (Some ''mob_1'')
       (Register (Some ''mob_1'') (Some ''mobile'') (Some ''Pixel'')) state_registered
     = (Some ''mob_1'',
        state_registered\<lparr>device_info :=
          [(Some ''host_1'', info_host), (Some ''mob_1'', info_mob\<lparr>last_seen := 1000\<rparr>)]\<rparr>,
        [Save [(Some ''host_1'', info_host), (Some ''mob_1'', info_mob\<lparr>last_seen := 1000\<rparr>)] [],
         Send 2 (Registered (Some ''mob_1'') True)])
   \<and> map_of [(Some ''host_1'', info_host), (Some ''mob_1'', info_mob\<lparr>last_seen := 1000\<rparr>)]
        (Some ''mob_1'') = Some (info_mob\<lparr>last_seen := 1000\<rparr>)
   \<and> device_name (info_mob\<lparr>last_seen := 1000\<rparr>) = Some ''Phone''
   \<and> map_of [(Some ''host_1'', info_host), (Some ''mob_1'', info_mob\<lparr>last_seen := 1000\<rparr>)]
        (Some ''host_1'') = Some info_host"
proof -
  have a: "map_of (device_info state_registered) (Some ''mob_1'') = Some info_mob"
    and b: "distinct (map fst (device_info state_registered))"
    by (simp_all add: state_registered_def)
  have c: "handle_client_message env_ok 2 (Some ''mob_1'')
       (Register (Some ''mob_1'') (Some ''mobile'') (Some ''Pixel'')) state_registered
     = (Some ''mob_1'',
        state_registered\<lparr>device_info :=
          [(Some ''host_1'', info_host), (Some ''mob_1'', info_mob\<lparr>last_seen := 1000\<rparr>)]\<rparr>,
        [Save [(Some ''host_1'', info_host), (Some ''mob_1'', info_mob\<lparr>last_seen := 1000\<rparr>)] [],
         Send 2 (Registered (Some ''mob_1'') True)])"
    by (simp add: example_defs)
  show ?thesis
    using a b c reregistration_updates_last_seen_only [OF a b c, of "Some ''host_1''"]
    by (simp add: env_ok_def info_mob_def)
qed

subsection \<open>Persistence\<close>

lemma register_saved:
  "relay_register e ws did t n s = (s', es) \<Longrightarrow> saved_before_sends s' es"
  by (auto simp: relay_register_def Let_def saved_before_sends_def split: if_splits)

lemma pair_request_same: "relay_pair_request e ws did code name s = (s', es) \<Longrightarrow> s' = s"
  by (auto simp: relay_pair_request_def split_beta split: if_splits)

lemma pair_response_saved:
  "relay_pair_response e ws did target accepted message s = (s', es) \<Longrightarrow>
   s' = s \<or> saved_before_sends s' es"
  by (auto simp: relay_pair_response_def Let_def saved_before_sends_def
      split: option.splits if_splits)

lemma unpair_saved:
  "relay_unpair_device e ws did target s = (s', es) \<Longrightarrow> saved_before_sends s' es"
  by (auto simp: relay_unpair_device_def Let_def saved_before_sends_def
      split: option.splits if_splits)

lemma relay_message_same:
  "relay_relay_message e ws did target mt payload s = (s', es) \<Longrightarrow> s' = s"
  by (auto simp: relay_relay_message_def split: option.splits if_splits)

lemma message_saved:
  assumes "handle_client_message e ws did data s = (d', s', es)"
  shows "s' = s \<or> saved_before_sends s' es"
proof (cases data)
  case (Register new_id dtype dname)
  with assms have "relay_register e ws new_id dtype dname s = (s', es)"
    by (auto simp: handle_client_message_def split: prod.splits)
  then show ?thesis by (simp add: register_saved)
next
  case (Pair_request code name)
  with assms have "relay_pair_request e ws did code name s = (s', es)"
    by (auto simp: handle_client_message_def split: prod.splits)
  then show ?thesis by (simp add: pair_request_same)
next
  case (Pair_response target accepted message)
  with assms have "relay_pair_response e ws did target accepted message s = (s', es)"
    by (auto simp: handle_client_message_def split: prod.splits)
  then show ?thesis by (rule pair_response_saved)
next
  case (Unpair_device target)
  with assms have "relay_unpair_device e ws did target s = (s', es)"
    by (auto simp: handle_client_message_def split: prod.splits)
  then show ?thesis by (simp add: unpair_saved)
next
  case (Relay_message target mt payload)
  with assms have "relay_relay_message e ws did target mt payload s = (s', es)"
    by (auto simp: handle_client_message_def split: prod.splits)
  then show ?thesis by (simp add: relay_message_same)
next
  case Other_request
  with assms show ?thesis by (simp add: handle_client_message_def)
qed

lemma cleanup_saved:
  assumes "handle_client_cleanup e did s = (s', es)"
  shows "(device_info s' = device_info s \<and> paired_devices s' = paired_devices s)
    \<or> es = [Save (device_info s') (paired_devices s')]"
  using assms by (auto simp: handle_client_cleanup_def Let_def split: if_splits)

lemma save_completes:
  "disk_after (length (save_persistent_data info pairs)) (save_persistent_data info pairs) d
     = \<lparr>devices_file = Dumped info, pairings_file = Dumped pairs\<rparr>"
  by (simp add: disk_after_def save_persistent_data_def)


text \<open>
  Claim C9, as stated, fails for atomicity: \<^verbatim>\<open>save_persistent_data\<close> opens each file with
  mode \<^verbatim>\<open>'w'\<close>, which empties it, and then dumps into it; there is no temporary file and no
  rename. The disk holds the directory with the host alone; the relay saves the directory
  with the host and the companion and stops after the first write. The devices file is
  then unparseable, and \<^verbatim>\<open>load_persistent_data\<close> yields the empty directory: neither the
  old directory nor the new one.
\<close>

theorem crash_during_save_loses_directory:
  "disk_after 1
     (save_persistent_data (device_info state_registered) (paired_devices state_registered))
     disk_old
   = \<lparr>devices_file = Unparseable, pairings_file = Dumped []\<rparr>
   \<and> device_info (load_persistent_data \<lparr>devices_file = Unparseable, pairings_file = Dumped []\<rparr>)
     = []
   \<and> device_info (load_persistent_data disk_old) = [(Some ''host_1'', info_host)]
   \<and> device_info state_registered = [(Some ''host_1'', info_host), (Some ''mob_1'', info_mob)]"
  by (simp add: disk_after_def save_persistent_data_def disk_old_def load_persistent_data_def
      state_registered_def)

text \<open>
  Claim C9, amended. Whenever handling a message changes the device directory or the
  pairing store, the handler calls \<^verbatim>\<open>save_persistent_data\<close> with the complete new directory
  and pairing set before it writes any message to a websocket; whenever the cleanup of a
  connection changes them, it makes that call too; and a save that runs to its end leaves
  both files holding the complete stores. The files are written in place, not atomically.
\<close>

theorem mutation_saved_before_any_send:
  assumes "device_info s' \<noteq> device_info s \<or> paired_devices s' \<noteq> paired_devices s"
  shows "(handle_client_message e websocket device_id data s = (d', s', es)
            \<longrightarrow> saved_before_sends s' es)
    \<and> (handle_client_cleanup e device_id s = (s', es)
            \<longrightarrow> es = [Save (device_info s') (paired_devices s')])
    \<and> disk_after (length (save_persistent_data (device_info s') (paired_devices s')))
         (save_persistent_data (device_info s') (paired_devices s')) d
       = \<lparr>devices_file = Dumped (device_info s'), pairings_file = Dumped (paired_devices s')\<rparr>"
proof -
  have changed: "s' \<noteq> s" using assms by auto
  have msg: "handle_client_message e websocket device_id data s = (d', s', es)
      \<longrightarrow> saved_before_sends s' es"
    using message_saved [of e websocket device_id data s d' s' es] changed by auto
  have fin: "handle_client_cleanup e device_id s = (s', es)
      \<longrightarrow> es = [Save (device_info s') (paired_devices s')]"
    using cleanup_saved [of e device_id s s' es] assms by auto
  from msg fin show ?thesis by (simp add: save_completes)
qed

theorem mutation_saved_before_any_send_witness:
  "paired_devices state_paired \<noteq> paired_devices state_registered
   \<and> handle_client_message env_ok 1 (Some ''host_1'')
        (Pair_response (Some ''mob_1'') True ''ok'') state_registered
      = (Some ''host_1'', state_paired,
         [Save [(Some ''host_1'', info_host), (Some ''mob_1'', info_mob)]
            [(Some ''host_1'', Some ''mob_1'')],
          Send 1 (Paired (Some ''mob_1'') (Some ''Phone'') ''ok''),
          Send 2 (Paired (Some ''host_1'') (Some ''Laptop'')
            ''Successfully paired with laptop (persistent)'')])
   \<and> saved_before_sends state_paired
         [Save [(Some ''host_1'', info_host), (Some ''mob_1'', info_mob)]
            [(Some ''host_1'', Some ''mob_1'')],
          Send 1 (Paired (Some ''mob_1'') (Some ''Phone'') ''ok''),
          Send 2 (Paired (Some ''host_1'') (Some ''Laptop'')
            ''Successfully paired with laptop (persistent)'')]
   \<and> disk_after 4
        (save_persistent_data (device_info state_paired) (paired_devices state_paired)) disk_old
      = \<lparr>devices_file = Dumped [(Some ''host_1'', info_host), (Some ''mob_1'', info_mob)],
         pairings_file = Dumped [(Some ''host_1'', Some ''mob_1'')]\<rparr>"
proof -
  have a: "device_info state_paired \<noteq> device_info state_registered
      \<or> paired_devices state_paired \<noteq> paired_devices state_registered"
    by (simp add: state_paired_def state_registered_def)
  have b: "handle_client_message env_ok 1 (Some ''host_1'')
        (Pair_response (Some ''mob_1'') True ''ok'') state_registered
      = (Some ''host_1'', state_paired,
         [Save [(Some ''host_1'', info_host), (Some ''mob_1'', info_mob)]
            [(Some ''host_1'', Some ''mob_1'')],
          Send 1 (Paired (Some ''mob_1'') (Some ''Phone'') ''ok''),
          Send 2 (Paired (Some ''host_1'') (Some ''Laptop'')
            ''Successfully paired with laptop (persistent)'')])"
    by (simp add: example_defs)
  have c: "paired_devices state_paired \<noteq> paired_devices state_registered"
    by (simp add: state_paired_def state_registered_def)
  show ?thesis
    using b c mutation_saved_before_any_send [OF a, of env_ok 1 "Some ''host_1''"
        "Pair_response (Some ''mob_1'') True ''ok''" "Some ''host_1''"
        "[Save [(Some ''host_1'', info_host), (Some ''mob_1'', info_mob)]
            [(Some ''host_1'', Some ''mob_1'')],
          Send 1 (Paired (Some ''mob_1'') (Some ''Phone'') ''ok''),
          Send 2 (Paired (Some ''host_1'') (Some ''Laptop'')
            ''Successfully paired with laptop (persistent)'')]" disk_old]
    by (simp add: save_persistent_data_def disk_after_def state_paired_def state_registered_def)
qed

end
